theory Spec2Isabelle
  imports Main
begin

section \<open>Data model of \<open>server.py\<close>\<close>

text \<open>
  The service is a FastAPI application with three routes (\<open>GET /\<close>, \<open>GET /health\<close>,
  \<open>POST /connect\<close>), two module-level dictionaries (\<open>bot_procs\<close>, \<open>daily_helpers\<close>) and a
  shutdown hook (\<open>cleanup\<close>). The embedding passes the module state explicitly, takes the
  answers of the collaborators (the Daily REST helper and \<open>subprocess.Popen\<close>) as a parameter
  of each request, and returns with every handler the list of effects it performed, one
  event per effectful statement of the source, in program order.
\<close>

subsection \<open>Python values and exceptions\<close>

text \<open>
  \<open>bool(x)\<close> and \<open>not x\<close> on a value that is \<open>None\<close> or a \<open>str\<close>: only a non-empty string
  is true.
\<close>

definition truthy :: "string option \<Rightarrow> bool" where
  "truthy v = (case v of None \<Rightarrow> False | Some s \<Rightarrow> s \<noteq> [])"

text \<open>
  The exceptions that leave a handler: FastAPI's \<open>HTTPException(status_code, detail)\<close>,
  the \<open>KeyError\<close> of a dictionary subscript, and any other exception of a collaborator,
  kept with its message.
\<close>

datatype pyexc = HTTPException nat string | KeyError string | Exception string

datatype json = JStr string | JBool bool

type_synonym body = "(string \<times> json) list"

datatype response = Return body | Raise pyexc

text \<open>
  What the web framework makes of a handler's outcome: a returned dictionary or
  \<open>JSONResponse\<close> is sent with status 200, an \<open>HTTPException\<close> with its own status code,
  any other exception as an internal server error.
\<close>

fun status_code :: "response \<Rightarrow> nat" where
  "status_code (Return b) = 200"
| "status_code (Raise (HTTPException c d)) = c"
| "status_code (Raise e) = 500"

subsection \<open>Process handles and the session registry\<close>

text \<open>
  A \<open>subprocess.Popen\<close> object, reduced to the two attributes the service relies on.
  \<open>returncode\<close> is \<open>None\<close> until the handle has seen its child exit.
\<close>

record popen =
  pid :: int
  returncode :: "int option"

text \<open>
  \<open>bot_procs: Dict[int, tuple]\<close> maps a process identifier to \<open>(proc, room_url)\<close>. A Python
  dictionary iterates in insertion order, so it is an association list with distinct keys;
  \<open>d[k] = v\<close> replaces the value of an existing key where it stands and appends a new key.
\<close>

type_synonym registry = "(int \<times> popen \<times> string) list"

fun dict_set :: "'k \<Rightarrow> 'v \<Rightarrow> ('k \<times> 'v) list \<Rightarrow> ('k \<times> 'v) list" where
  "dict_set k v [] = [(k, v)]"
| "dict_set k v ((k', v') # kvs) =
     (if k = k' then (k, v) # kvs else (k', v') # dict_set k v kvs)"


text \<open>What a registry says about its sessions, leaving the mutable handle state aside.\<close>

definition registry_view :: "registry \<Rightarrow> (int \<times> int \<times> string) list" where
  "registry_view d = map (\<lambda>(k, p, u). (k, pid p, u)) d"

subsection \<open>Module state\<close>

record rest_helper =
  daily_api_key :: string
  daily_api_url :: string

text \<open>
  \<open>environ\<close> is the process environment read by \<open>os.getenv\<close>; \<open>server_dir\<close> is
  \<open>os.path.dirname(os.path.abspath(__file__))\<close>, fixed for the life of the process.
\<close>

record state =
  environ :: "string \<rightharpoonup> string"
  daily_helpers :: "string \<rightharpoonup> rest_helper"
  bot_procs :: registry
  server_dir :: string

subsection \<open>Collaborators\<close>

text \<open>
  \<open>DailyRoomObject\<close>, of which the service reads \<open>url\<close> only.
\<close>

record daily_room =
  url :: "string option"

text \<open>
  The answers the outside world gives during one request: what
  \<open>DailyRESTHelper.create_room\<close> and \<open>get_token\<close> return or raise, and whether
  \<open>subprocess.Popen\<close> started the given shell command in the given working directory
  (\<open>Inr\<close> the child's process identifier) or raised an exception \<open>e\<close> (\<open>Inl\<close> of \<open>str(e)\<close>).
\<close>

record collaborators =
  create_room :: "pyexc + daily_room"
  get_token :: "string \<Rightarrow> pyexc + string option"
  popen_spawn :: "string \<Rightarrow> string \<Rightarrow> string + int"

datatype event =
    EvPrint string
  | EvCreateRoom
  | EvGetToken string
  | EvPopen string string
  | EvRegister int

section \<open>Lifespan\<close>

definition getenv_default :: "state \<Rightarrow> string \<Rightarrow> string \<Rightarrow> string" where
  "getenv_default s k d = (case environ s k of None \<Rightarrow> d | Some v \<Rightarrow> v)"

text \<open>The part of \<open>lifespan\<close> before \<open>yield\<close>: the shared REST helper is installed.\<close>

definition lifespan_startup :: "state \<Rightarrow> state" where
  "lifespan_startup s =
     s\<lparr>daily_helpers := (daily_helpers s)(''rest'' \<mapsto>
          \<lparr>daily_api_key = getenv_default s ''DAILY_API_KEY'' '''',
           daily_api_url = getenv_default s ''DAILY_API_URL'' ''https://api.daily.co/v1''\<rparr>)\<rparr>"

section \<open>Health endpoints\<close>

definition health_check :: "state \<Rightarrow> response \<times> state \<times> event list" where
  "health_check s =
     (Return
        [(''status'', JStr ''ok''),
         (''service'', JStr ''pipecat-gemini-bot''),
         (''version'', JStr ''1.0.0''),
         (''daily_api_configured'', JBool (truthy (environ s ''DAILY_API_KEY''))),
         (''google_api_configured'', JBool (truthy (environ s ''GOOGLE_API_KEY'')))],
      s, [])"

definition health :: "state \<Rightarrow> response \<times> state \<times> event list" where
  "health s = (Return [(''status'', JStr ''healthy'')], s, [])"

section \<open>Session creation\<close>

text \<open>
  \<open>create_room_and_token\<close>: the result is the pair \<open>(room.url, token)\<close> or the exception
  raised, together with the calls made so far. \<open>not room.url\<close> and \<open>not token\<close> hold
  for \<open>None\<close> and for the empty string, written out as the two failing branches of each
  check.
\<close>

definition create_room_and_token ::
  "collaborators \<Rightarrow> state \<Rightarrow> (pyexc + string \<times> string) \<times> event list" where
  "create_room_and_token ext s =
     (case daily_helpers s ''rest'' of
        None \<Rightarrow> (Inl (KeyError ''rest''), [])
      | Some h \<Rightarrow>
          (case create_room ext of
             Inl e \<Rightarrow> (Inl e, [EvCreateRoom])
           | Inr room \<Rightarrow>
               (case url room of
                  None \<Rightarrow> (Inl (HTTPException 500 ''Failed to create room''), [EvCreateRoom])
                | Some u \<Rightarrow>
                    if u = [] then
                      (Inl (HTTPException 500 ''Failed to create room''), [EvCreateRoom])
                    else
                      (case get_token ext u of
                         Inl e \<Rightarrow> (Inl e, [EvCreateRoom, EvGetToken u])
                       | Inr token \<Rightarrow>
                           (case token of
                              None \<Rightarrow>
                                (Inl (HTTPException 500 (''Failed to get token for room: '' @ u)),
                                 [EvCreateRoom, EvGetToken u])
                            | Some t \<Rightarrow>
                                if t = [] then
                                  (Inl (HTTPException 500 (''Failed to get token for room: '' @ u)),
                                   [EvCreateRoom, EvGetToken u])
                                else (Inr (u, t), [EvCreateRoom, EvGetToken u]))))))"

definition bot_file :: string where
  "bot_file = ''bot-gemini''"

text \<open>The shell command line handed to \<open>subprocess.Popen(..., shell=True)\<close>.\<close>

definition bot_command :: "string \<Rightarrow> string \<Rightarrow> string" where
  "bot_command room_url token =
     ''python3 -m '' @ bot_file @ '' -u '' @ room_url @ '' -t '' @ token"

definition bot_connect :: "collaborators \<Rightarrow> state \<Rightarrow> response \<times> state \<times> event list" where
  "bot_connect ext s =
     (case create_room_and_token ext s of
        (Inl e, evs) \<Rightarrow> (Raise e, s, EvPrint ''Creating room for RTVI connection'' # evs)
      | (Inr (room_url, token), evs) \<Rightarrow>
          (case popen_spawn ext (bot_command room_url token) (server_dir s) of
             Inl msg \<Rightarrow>
               (Raise (HTTPException 500 (''Failed to start subprocess: '' @ msg)), s,
                EvPrint ''Creating room for RTVI connection'' # evs @
                [EvPrint (''Room URL: '' @ room_url),
                 EvPopen (bot_command room_url token) (server_dir s)])
           | Inr child \<Rightarrow>
               (Return [(''room_url'', JStr room_url), (''token'', JStr token)],
                s\<lparr>bot_procs :=
                    dict_set child (\<lparr>pid = child, returncode = None\<rparr>, room_url) (bot_procs s)\<rparr>,
                EvPrint ''Creating room for RTVI connection'' # evs @
                [EvPrint (''Room URL: '' @ room_url),
                 EvPopen (bot_command room_url token) (server_dir s),
                 EvRegister child])))"

section \<open>Shutdown\<close>

subsection \<open>The operating system's view of the children\<close>

text \<open>
  The child processes as the operating system has them when the service shuts down. A
  child is still running or has exited and waits to be reaped; an identifier without an
  entry is no child of the service (never started, or already reaped). \<open>Running t\<close>
  carries what \<open>SIGTERM\<close> does to the child: \<open>Some rc\<close> if it exits, with the return code
  \<open>rc\<close> a handle will report, \<open>None\<close> if it ignores the signal and keeps running.
  A running child is taken to keep running until it is signalled. \<open>delivered\<close> lists
  the identifiers that \<open>os.kill\<close> has sent \<open>SIGTERM\<close> to.
\<close>

datatype child = Running "int option" | Zombie int

record os =
  children :: "int \<rightharpoonup> child"
  delivered :: "int list"

datatype oserror = ProcessLookupError | ChildProcessError

text \<open>
  \<open>os.waitpid(pid, flags)\<close>, with \<open>nohang\<close> for \<open>WNOHANG\<close>: the result \<open>None\<close> is a call that
  never returns, which happens without \<open>WNOHANG\<close> on a child that keeps running. A reaped
  child leaves the table.
\<close>

definition os_waitpid :: "int \<Rightarrow> bool \<Rightarrow> os \<Rightarrow> (oserror + (int \<times> int) \<times> os) option" where
  "os_waitpid c nohang w =
     (case children w c of
        None \<Rightarrow> Some (Inl ChildProcessError)
      | Some (Zombie rc) \<Rightarrow> Some (Inr ((c, rc), w\<lparr>children := (children w)(c := None)\<rparr>))
      | Some (Running t) \<Rightarrow> if nohang then Some (Inr ((0, 0), w)) else None)"

definition os_kill :: "int \<Rightarrow> os \<Rightarrow> oserror + os" where
  "os_kill c w =
     (case children w c of
        None \<Rightarrow> Inl ProcessLookupError
      | Some (Zombie rc) \<Rightarrow> Inr (w\<lparr>delivered := delivered w @ [c]\<rparr>)
      | Some (Running t) \<Rightarrow>
          Inr (w\<lparr>children :=
                    (case t of None \<Rightarrow> children w | Some rc \<Rightarrow> (children w)(c \<mapsto> Zombie rc)),
                  delivered := delivered w @ [c]\<rparr>))"

subsection \<open>The methods of a process handle\<close>

text \<open>
  \<open>cleanup\<close> calls two methods of the standard library's \<open>subprocess.Popen\<close>. They are
  not code of the service; they are written down here after CPython's POSIX
  implementation, as far as \<open>terminate()\<close> and \<open>wait()\<close> without a timeout go.

  \<open>Popen.poll\<close> on POSIX: a handle that has its return code asks nothing; otherwise one
  \<open>waitpid\<close> with \<open>WNOHANG\<close>, and \<open>ECHILD\<close> sets the return code to 0 (any other
  \<open>OSError\<close> is swallowed).
\<close>

definition poll :: "popen \<Rightarrow> os \<Rightarrow> popen \<times> os" where
  "poll p w =
     (if returncode p = None then
        (case os_waitpid (pid p) True w of
           None \<Rightarrow> (p, w)
         | Some (Inl e) \<Rightarrow>
             if e = ChildProcessError then (p\<lparr>returncode := Some 0\<rparr>, w) else (p, w)
         | Some (Inr ((c, rc), w')) \<Rightarrow>
             if c = pid p then (p\<lparr>returncode := Some rc\<rparr>, w') else (p, w'))
      else (p, w))"

text \<open>
  \<open>Popen.terminate\<close> is \<open>send_signal(SIGTERM)\<close>: poll first, skip a child known to be
  dead, and suppress the \<open>ProcessLookupError\<close> of \<open>os.kill\<close>.
\<close>

definition terminate :: "popen \<Rightarrow> os \<Rightarrow> oserror + popen \<times> os" where
  "terminate p w =
     (case poll p w of
        (p', w') \<Rightarrow>
          if returncode p' \<noteq> None then Inr (p', w')
          else
            (case os_kill (pid p') w' of
               Inl e \<Rightarrow> if e = ProcessLookupError then Inr (p', w') else Inl e
             | Inr w'' \<Rightarrow> Inr (p', w'')))"

text \<open>
  \<open>Popen.wait()\<close> without a timeout: a handle that has its return code returns at once;
  otherwise a blocking \<open>waitpid\<close>, where \<open>ChildProcessError\<close> counts as exit status 0.
  \<open>None\<close> is a call that blocks forever. The library repeats the \<open>waitpid\<close> while the
  identifier it returns is not the handle's; \<open>os_waitpid\<close> without \<open>WNOHANG\<close> only ever
  returns the identifier it was asked for, so the loop body runs once.
\<close>

definition wait :: "popen \<Rightarrow> os \<Rightarrow> (oserror + popen \<times> os) option" where
  "wait p w =
     (if returncode p \<noteq> None then Some (Inr (p, w))
      else
        (case os_waitpid (pid p) False w of
           None \<Rightarrow> None
         | Some (Inl e) \<Rightarrow>
             if e = ChildProcessError then Some (Inr (p\<lparr>returncode := Some 0\<rparr>, w))
             else Some (Inl e)
         | Some (Inr ((c, rc), w')) \<Rightarrow> Some (Inr (p\<lparr>returncode := Some rc\<rparr>, w'))))"

subsection \<open>\<open>cleanup\<close>\<close>

text \<open>
  The loop \<open>for entry in bot_procs.values(): proc = entry[0]; proc.terminate(); proc.wait()\<close>.
  The handles are mutated where they are stored; the dictionary itself is never assigned
  to. An exception ends the loop, a blocking \<open>wait\<close> keeps it from returning.
\<close>

fun cleanup_loop :: "registry \<Rightarrow> os \<Rightarrow> (oserror + registry \<times> os) option" where
  "cleanup_loop [] w = Some (Inr ([], w))"
| "cleanup_loop ((k, proc, room_url) # entries) w =
     (case terminate proc w of
        Inl e \<Rightarrow> Some (Inl e)
      | Inr (p1, w1) \<Rightarrow>
          (case wait p1 w1 of
             None \<Rightarrow> None
           | Some (Inl e) \<Rightarrow> Some (Inl e)
           | Some (Inr (p2, w2)) \<Rightarrow>
               (case cleanup_loop entries w2 of
                  None \<Rightarrow> None
                | Some (Inl e) \<Rightarrow> Some (Inl e)
                | Some (Inr (entries', w')) \<Rightarrow> Some (Inr ((k, p2, room_url) # entries', w')))))"

definition cleanup :: "state \<Rightarrow> os \<Rightarrow> (oserror + state \<times> os) option" where
  "cleanup s w =
     (case cleanup_loop (bot_procs s) w of
        None \<Rightarrow> None
      | Some (Inl e) \<Rightarrow> Some (Inl e)
      | Some (Inr (d, w')) \<Rightarrow> Some (Inr (s\<lparr>bot_procs := d\<rparr>, w')))"

text \<open>
  A handle's process has already exited when the handle holds a return code, or the
  operating system has the child as exited, or has no such child any more.
\<close>

definition exited :: "popen \<Rightarrow> os \<Rightarrow> bool" where
  "exited p w =
     (case returncode p of
        Some rc \<Rightarrow> True
      | None \<Rightarrow>
          (case children w (pid p) of
             None \<Rightarrow> True
           | Some (Zombie rc) \<Rightarrow> True
           | Some (Running t) \<Rightarrow> False))"

section \<open>Example inputs\<close>

text \<open>
  A service that has started with a Daily key in its environment and no session yet; the
  collaborators of the scenario in which the Daily API answers with the room
  \<open>https://x.example/room1\<close> and the token \<open>tok123\<close> and the worker starts as process 4242.
\<close>

definition example_state :: state where
  "example_state =
     lifespan_startup
       \<lparr>environ = [''DAILY_API_KEY'' \<mapsto> ''key''], daily_helpers = Map.empty,
        bot_procs = [], server_dir = ''/app''\<rparr>"

definition example_ext :: collaborators where
  "example_ext =
     \<lparr>create_room = Inr \<lparr>url = Some ''https://x.example/room1''\<rparr>,
      get_token = (\<lambda>u. Inr (Some ''tok123'')),
      popen_spawn = (\<lambda>c d. Inr 4242)\<rparr>"

text \<open>The same service after that session was registered, and a worker that is still
  running at shutdown and exits on \<open>SIGTERM\<close> (return code \<open>-15\<close>).\<close>

definition example_registered :: state where
  "example_registered =
     example_state\<lparr>bot_procs :=
       [(4242, \<lparr>pid = 4242, returncode = None\<rparr>, ''https://x.example/room1'')]\<rparr>"

definition example_os :: os where
  "example_os = \<lparr>children = [4242 \<mapsto> Running (Some (- 15))], delivered = []\<rparr>"

text \<open>At another shutdown the worker has already exited with return code 0 and has not
  been reaped.\<close>

definition example_os_exited :: os where
  "example_os_exited = \<lparr>children = [4242 \<mapsto> Zombie 0], delivered = []\<rparr>"

section \<open>Properties\<close>

subsection \<open>Auxiliary facts\<close>

lemma create_room_and_token_Inr:
  "create_room_and_token ext s = (Inr (u, t), evs) \<longleftrightarrow>
     (\<exists>h room. daily_helpers s ''rest'' = Some h \<and> create_room ext = Inr room \<and>
        url room = Some u \<and> u \<noteq> [] \<and> get_token ext u = Inr (Some t) \<and> t \<noteq> [] \<and>
        evs = [EvCreateRoom, EvGetToken u])"
  unfolding create_room_and_token_def
  by (auto split: option.splits sum.splits if_splits)

lemma bot_connect_Return:
  assumes "bot_connect ext s = (Return b, s', evs)"
  shows "\<exists>u t c. create_room_and_token ext s = (Inr (u, t), [EvCreateRoom, EvGetToken u]) \<and>
        popen_spawn ext (bot_command u t) (server_dir s) = Inr c \<and>
        b = [(''room_url'', JStr u), (''token'', JStr t)] \<and>
        s' = s\<lparr>bot_procs := dict_set c (\<lparr>pid = c, returncode = None\<rparr>, u) (bot_procs s)\<rparr> \<and>
        evs = [EvPrint ''Creating room for RTVI connection'', EvCreateRoom, EvGetToken u,
               EvPrint (''Room URL: '' @ u), EvPopen (bot_command u t) (server_dir s),
               EvRegister c]"
  using assms unfolding bot_connect_def
  by (auto split: prod.splits sum.splits simp: create_room_and_token_Inr)

lemma example_connect:
  "bot_connect example_ext example_state =
     (Return [(''room_url'', JStr ''https://x.example/room1''), (''token'', JStr ''tok123'')],
      example_registered,
      [EvPrint ''Creating room for RTVI connection'', EvCreateRoom,
       EvGetToken ''https://x.example/room1'', EvPrint ''Room URL: https://x.example/room1'',
       EvPopen ''python3 -m bot-gemini -u https://x.example/room1 -t tok123'' ''/app'',
       EvRegister 4242])"
  by (simp add: bot_connect_def create_room_and_token_def example_ext_def example_state_def
      example_registered_def lifespan_startup_def bot_command_def bot_file_def)







lemma poll_pid: "poll p w = (p', w') \<Longrightarrow> pid p' = pid p"
  by (auto simp: poll_def os_waitpid_def split: if_splits option.splits sum.splits child.splits)

lemma terminate_no_raise: "terminate p w \<noteq> Inl e"
  by (auto simp: terminate_def os_kill_def split: prod.splits option.splits child.splits)

lemma wait_no_raise: "wait p w \<noteq> Some (Inl e)"
  by (auto simp: wait_def os_waitpid_def split: option.splits child.splits)

lemma terminate_pid: "terminate p w = Inr (p', w') \<Longrightarrow> pid p' = pid p"
  by (auto simp: terminate_def dest: poll_pid split: prod.splits if_splits sum.splits)

lemma wait_returned:
  "wait p w = Some (Inr (p', w')) \<Longrightarrow> pid p' = pid p \<and> returncode p' \<noteq> None"
  by (auto simp: wait_def os_waitpid_def split: if_splits option.splits child.splits)

lemma terminate_known: "returncode p \<noteq> None \<Longrightarrow> terminate p w = Inr (p, w)"
  by (auto simp: terminate_def poll_def)

lemma wait_known: "returncode p \<noteq> None \<Longrightarrow> wait p w = Some (Inr (p, w))"
  by (auto simp: wait_def)

lemma cleanup_loop_no_raise: "cleanup_loop d w \<noteq> Some (Inl e)"
proof (induction d arbitrary: w)
  case Nil
  show ?case by simp
next
  case (Cons x d)
  obtain k p u where x: "x = (k, p, u)" by (cases x) auto
  show ?case unfolding x
    using Cons terminate_no_raise wait_no_raise
    by (auto split: sum.splits option.splits prod.splits)
qed

lemma cleanup_loop_result:
  "cleanup_loop d w = Some (Inr (d', w')) \<Longrightarrow>
     registry_view d' = registry_view d \<and> (\<forall>(k, p, u) \<in> set d'. returncode p \<noteq> None)"
proof (induction d arbitrary: w d' w')
  case Nil
  then show ?case by (simp add: registry_view_def)
next
  case (Cons x d)
  obtain k p u where x: "x = (k, p, u)" by (cases x) auto
  from Cons.prems obtain p1 w1 p2 w2 d2 where
    t: "terminate p w = Inr (p1, w1)" and
    wt: "wait p1 w1 = Some (Inr (p2, w2))" and
    l: "cleanup_loop d w2 = Some (Inr (d2, w'))" and
    d': "d' = (k, p2, u) # d2"
    unfolding x by (auto split: sum.splits option.splits prod.splits)
  from terminate_pid [OF t] wait_returned [OF wt]
  have "pid p2 = pid p" "returncode p2 \<noteq> None" by simp_all
  with Cons.IH [OF l] show ?case
    unfolding x d' by (simp add: registry_view_def)
qed

lemma cleanup_loop_known:
  "(\<forall>(k, p, u) \<in> set d. returncode p \<noteq> None) \<Longrightarrow> cleanup_loop d w = Some (Inr (d, w))"
proof (induction d)
  case Nil
  show ?case by simp
next
  case (Cons x d)
  obtain k p u where x: "x = (k, p, u)" by (cases x) auto
  from Cons.prems have "returncode p \<noteq> None" unfolding x by simp
  with Cons show ?case unfolding x
    by (simp add: terminate_known wait_known)
qed

lemma terminate_exited:
  assumes "exited p w"
  shows "\<exists>p' w'. terminate p w = Inr (p', w') \<and> returncode p' \<noteq> None \<and>
           delivered w' = delivered w \<and>
           (children w' = children w \<or> children w' = (children w)(pid p := None))"
  using assms
  by (auto simp: exited_def terminate_def poll_def os_waitpid_def
      split: option.splits child.splits)

lemma exited_mono:
  "exited q w \<Longrightarrow> children w' = children w \<or> children w' = (children w)(c := None) \<Longrightarrow>
     exited q w'"
  by (auto simp: exited_def split: option.splits child.splits if_splits)

lemma cleanup_loop_exited:
  "(\<forall>(k, p, u) \<in> set d. exited p w) \<Longrightarrow>
     \<exists>d' w'. cleanup_loop d w = Some (Inr (d', w')) \<and> delivered w' = delivered w"
proof (induction d arbitrary: w)
  case Nil
  show ?case by simp
next
  case (Cons x d)
  obtain k p u where x: "x = (k, p, u)" by (cases x) auto
  from Cons.prems have "exited p w" unfolding x by simp
  from terminate_exited [OF this] obtain p1 w1 where
    t: "terminate p w = Inr (p1, w1)" and r: "returncode p1 \<noteq> None" and
    dl: "delivered w1 = delivered w" and
    ch: "children w1 = children w \<or> children w1 = (children w)(pid p := None)"
    by blast
  have "\<forall>(k, q, u) \<in> set d. exited q w1"
    using Cons.prems ch unfolding x by (auto intro: exited_mono)
  from Cons.IH [OF this] obtain d' w' where
    l: "cleanup_loop d w1 = Some (Inr (d', w'))" and dl': "delivered w' = delivered w1"
    by blast
  show ?case unfolding x
    using t wait_known [OF r] l dl dl' by simp
qed

lemma example_cleanup:
  "cleanup example_registered example_os =
     Some (Inr (example_registered\<lparr>bot_procs :=
                  [(4242, \<lparr>pid = 4242, returncode = Some (- 15)\<rparr>, ''https://x.example/room1'')]\<rparr>,
                \<lparr>children = Map.empty, delivered = [4242]\<rparr>))"
  by (simp add: cleanup_def example_registered_def example_os_def terminate_def poll_def
      wait_def os_waitpid_def os_kill_def)

subsection \<open>Successful session creation\<close>



text \<open>
  C6. The body of every successful \<open>POST /connect\<close> response carries a non-empty
  \<open>room_url\<close> and a non-empty \<open>token\<close>.
\<close>

theorem connect_success_nonempty:
  assumes "bot_connect ext s = (Return b, s', evs)"
  shows "\<exists>room_url token.
     b = [(''room_url'', JStr room_url), (''token'', JStr token)] \<and>
     room_url \<noteq> [] \<and> token \<noteq> []"
proof -
  from bot_connect_Return [OF assms] obtain u t where
    rt: "create_room_and_token ext s = (Inr (u, t), [EvCreateRoom, EvGetToken u])" and
    b: "b = [(''room_url'', JStr u), (''token'', JStr t)]"
    by blast
  from rt have "u \<noteq> []" "t \<noteq> []"
    unfolding create_room_and_token_Inr by blast+
  with b show ?thesis by blast
qed

theorem connect_success_nonempty_witness:
  "\<exists>room_url token.
     [(''room_url'', JStr ''https://x.example/room1''), (''token'', JStr ''tok123'')] =
     [(''room_url'', JStr room_url), (''token'', JStr token)] \<and>
     room_url \<noteq> [] \<and> token \<noteq> []"
  using connect_success_nonempty [OF example_connect] .

subsection \<open>Failing session creation\<close>

text \<open>
  C2. When the created room has no usable URL (\<open>None\<close> or the empty string),
  \<open>POST /connect\<close> raises \<open>HTTPException(500, "Failed to create room")\<close>. Its only effects
  are the first log line and the room creation call: no token is requested, no process is
  launched, and the state, the session registry included, is the one before the request.
\<close>

theorem room_failure:
  assumes "daily_helpers s ''rest'' = Some h"
    and "create_room ext = Inr room"
    and "\<not> truthy (url room)"
  shows "bot_connect ext s =
           (Raise (HTTPException 500 ''Failed to create room''), s,
            [EvPrint ''Creating room for RTVI connection'', EvCreateRoom]) \<and>
         status_code (fst (bot_connect ext s)) = 500"
  using assms
  by (auto simp: bot_connect_def create_room_and_token_def truthy_def split: option.splits)

theorem room_failure_witness:
  "daily_helpers example_state ''rest'' =
     Some \<lparr>daily_api_key = ''key'', daily_api_url = ''https://api.daily.co/v1''\<rparr> \<and>
   create_room (example_ext\<lparr>create_room := Inr \<lparr>url = Some ''''\<rparr>\<rparr>) = Inr \<lparr>url = Some ''''\<rparr> \<and>
   \<not> truthy (url \<lparr>url = Some ''''\<rparr>) \<and>
   bot_connect (example_ext\<lparr>create_room := Inr \<lparr>url = Some ''''\<rparr>\<rparr>) example_state =
     (Raise (HTTPException 500 ''Failed to create room''), example_state,
      [EvPrint ''Creating room for RTVI connection'', EvCreateRoom]) \<and>
   status_code (fst (bot_connect (example_ext\<lparr>create_room := Inr \<lparr>url = Some ''''\<rparr>\<rparr>)
     example_state)) = 500"
proof -
  have h: "daily_helpers example_state ''rest'' =
     Some \<lparr>daily_api_key = ''key'', daily_api_url = ''https://api.daily.co/v1''\<rparr>"
    by (simp add: example_state_def lifespan_startup_def getenv_default_def)
  have c: "create_room (example_ext\<lparr>create_room := Inr \<lparr>url = Some ''''\<rparr>\<rparr>) = Inr \<lparr>url = Some ''''\<rparr>"
    by simp
  have t: "\<not> truthy (url \<lparr>url = Some ''''\<rparr>)"
    by (simp add: truthy_def)
  from room_failure [OF h c t] h c t show ?thesis by simp
qed

text \<open>
  C3. When the room was created but the token is \<open>None\<close> or empty, \<open>POST /connect\<close> raises
  \<open>HTTPException(500, "Failed to get token for room: <room URL>")\<close>. No process is launched
  and the state, the session registry included, is unchanged.
\<close>

theorem token_failure:
  assumes "daily_helpers s ''rest'' = Some h"
    and "create_room ext = Inr room"
    and "url room = Some room_url" and "room_url \<noteq> []"
    and "get_token ext room_url = Inr token"
    and "\<not> truthy token"
  shows "bot_connect ext s =
           (Raise (HTTPException 500 (''Failed to get token for room: '' @ room_url)), s,
            [EvPrint ''Creating room for RTVI connection'', EvCreateRoom,
             EvGetToken room_url]) \<and>
         status_code (fst (bot_connect ext s)) = 500"
  using assms
  by (auto simp: bot_connect_def create_room_and_token_def truthy_def split: option.splits)

theorem token_failure_witness:
  "bot_connect (example_ext\<lparr>get_token := (\<lambda>u. Inr None)\<rparr>) example_state =
     (Raise (HTTPException 500 ''Failed to get token for room: https://x.example/room1''),
      example_state,
      [EvPrint ''Creating room for RTVI connection'', EvCreateRoom,
       EvGetToken ''https://x.example/room1''])"
proof -
  have h: "daily_helpers example_state ''rest'' =
     Some \<lparr>daily_api_key = ''key'', daily_api_url = ''https://api.daily.co/v1''\<rparr>"
    by (simp add: example_state_def lifespan_startup_def getenv_default_def)
  have c: "create_room (example_ext\<lparr>get_token := (\<lambda>u. Inr None)\<rparr>) =
      Inr \<lparr>url = Some ''https://x.example/room1''\<rparr>"
    by (simp add: example_ext_def)
  have u: "url \<lparr>url = Some ''https://x.example/room1''\<rparr> = Some ''https://x.example/room1''"
    by simp
  have n: "''https://x.example/room1'' \<noteq> []" by simp
  have g: "get_token (example_ext\<lparr>get_token := (\<lambda>u. Inr None)\<rparr>) ''https://x.example/room1''
      = Inr None"
    by simp
  have t: "\<not> truthy None" by (simp add: truthy_def)
  from token_failure [OF h c u n g t] show ?thesis by simp
qed

text \<open>
  C4. When room and token were obtained but \<open>subprocess.Popen\<close> raises an exception with
  message \<open>cause\<close>, \<open>POST /connect\<close> raises
  \<open>HTTPException(500, "Failed to start subprocess: <cause>")\<close>. Nothing is registered: the
  state is unchanged and the trace ends with the launch attempt.
\<close>

theorem spawn_failure:
  assumes "daily_helpers s ''rest'' = Some h"
    and "create_room ext = Inr room"
    and "url room = Some room_url" and "room_url \<noteq> []"
    and "get_token ext room_url = Inr (Some token)" and "token \<noteq> []"
    and "popen_spawn ext (bot_command room_url token) (server_dir s) = Inl cause"
  shows "bot_connect ext s =
           (Raise (HTTPException 500 (''Failed to start subprocess: '' @ cause)), s,
            [EvPrint ''Creating room for RTVI connection'', EvCreateRoom,
             EvGetToken room_url, EvPrint (''Room URL: '' @ room_url),
             EvPopen (bot_command room_url token) (server_dir s)]) \<and>
         status_code (fst (bot_connect ext s)) = 500"
  using assms
  by (auto simp: bot_connect_def create_room_and_token_def)

theorem spawn_failure_witness:
  "bot_connect (example_ext\<lparr>popen_spawn := (\<lambda>c d. Inl ''[Errno 12] Cannot allocate memory'')\<rparr>)
     example_state =
     (Raise (HTTPException 500
        ''Failed to start subprocess: [Errno 12] Cannot allocate memory''),
      example_state,
      [EvPrint ''Creating room for RTVI connection'', EvCreateRoom,
       EvGetToken ''https://x.example/room1'', EvPrint ''Room URL: https://x.example/room1'',
       EvPopen ''python3 -m bot-gemini -u https://x.example/room1 -t tok123'' ''/app''])"
proof -
  let ?ext = "example_ext\<lparr>popen_spawn := (\<lambda>c d. Inl ''[Errno 12] Cannot allocate memory'')\<rparr>"
  have h: "daily_helpers example_state ''rest'' =
     Some \<lparr>daily_api_key = ''key'', daily_api_url = ''https://api.daily.co/v1''\<rparr>"
    by (simp add: example_state_def lifespan_startup_def getenv_default_def)
  have c: "create_room ?ext = Inr \<lparr>url = Some ''https://x.example/room1''\<rparr>"
    by (simp add: example_ext_def)
  have u: "url \<lparr>url = Some ''https://x.example/room1''\<rparr> = Some ''https://x.example/room1''"
    by simp
  have n: "''https://x.example/room1'' \<noteq> []" by simp
  have g: "get_token ?ext ''https://x.example/room1'' = Inr (Some ''tok123'')"
    by (simp add: example_ext_def)
  have m: "''tok123'' \<noteq> []" by simp
  have p: "popen_spawn ?ext (bot_command ''https://x.example/room1'' ''tok123'')
      (server_dir example_state) = Inl ''[Errno 12] Cannot allocate memory''"
    by simp
  have d: "server_dir example_state = ''/app''"
    by (simp add: example_state_def lifespan_startup_def)
  from spawn_failure [OF h c u n g m p] d show ?thesis
    by (simp add: bot_command_def bot_file_def)
qed

subsection \<open>Health endpoints\<close>

text \<open>
  C7. \<open>GET /\<close> always answers with status 200, and the \<open>daily_api_configured\<close> field of
  its payload is \<open>bool(os.getenv("DAILY_API_KEY"))\<close>: false when the environment holds no
  Daily API key (the variable is unset, or set to the empty string, which is no key), true
  when it holds one.
\<close>

theorem health_check_flag:
  "\<exists>b. health_check s = (Return b, s, []) \<and>
       status_code (Return b) = 200 \<and>
       map_of b ''daily_api_configured'' =
         Some (JBool (case environ s ''DAILY_API_KEY'' of
                        None \<Rightarrow> False
                      | Some key \<Rightarrow> key \<noteq> []))"
  by (simp add: health_check_def truthy_def)

theorem health_check_flag_witness:
  "(\<exists>b. health_check example_state = (Return b, example_state, []) \<and>
        map_of b ''daily_api_configured'' = Some (JBool True)) \<and>
   (\<exists>b. health_check (example_state\<lparr>environ := Map.empty\<rparr>) =
          (Return b, example_state\<lparr>environ := Map.empty\<rparr>, []) \<and>
        map_of b ''daily_api_configured'' = Some (JBool False))"
  using health_check_flag [of example_state]
    health_check_flag [of "example_state\<lparr>environ := Map.empty\<rparr>"]
  by (simp add: example_state_def lifespan_startup_def)

text \<open>
  C9. \<open>GET /\<close> and \<open>GET /health\<close> perform no effect and leave the whole state, the session
  registry included, as it was; both answer with status 200 in every state, hence in
  every state of a running service.
\<close>

theorem health_no_side_effects:
  "(\<exists>b. health_check s = (Return b, s, []) \<and> status_code (Return b) = 200) \<and>
   health s = (Return [(''status'', JStr ''healthy'')], s, []) \<and>
   status_code (fst (health s)) = 200"
  by (simp add: health_check_def health_def)

subsection \<open>The session registry on the request path\<close>



subsection \<open>Shutdown\<close>

text \<open>
  C8. \<open>cleanup\<close> on an empty registry returns at once, without an error and without
  touching anything. \<open>cleanup\<close> never raises. For a handle whose process has already
  exited, \<open>terminate\<close> raises nothing and sends no signal (at most it reaps the child and
  records its return code), and the \<open>wait\<close> that follows returns at once; so when every
  registered process has already exited, \<open>cleanup\<close> returns without an error, no signal
  is sent, and the registry keeps its records.
\<close>

theorem cleanup_tolerates:
  "cleanup (s\<lparr>bot_procs := []\<rparr>) w = Some (Inr (s\<lparr>bot_procs := []\<rparr>, w)) \<and>
   (\<forall>e. cleanup s w \<noteq> Some (Inl e)) \<and>
   (\<forall>p. exited p w \<longrightarrow>
      (\<exists>p' w'. terminate p w = Inr (p', w') \<and>
         delivered w' = delivered w \<and>
         (children w' = children w \<or> children w' = (children w)(pid p := None)) \<and>
         wait p' w' = Some (Inr (p', w')))) \<and>
   ((\<forall>(k, p, u) \<in> set (bot_procs s). exited p w) \<longrightarrow>
      (\<exists>s' w'. cleanup s w = Some (Inr (s', w')) \<and>
         delivered w' = delivered w \<and>
         registry_view (bot_procs s') = registry_view (bot_procs s)))"
proof (intro conjI allI impI)
  show "cleanup (s\<lparr>bot_procs := []\<rparr>) w = Some (Inr (s\<lparr>bot_procs := []\<rparr>, w))"
    by (simp add: cleanup_def)
next
  fix e
  show "cleanup s w \<noteq> Some (Inl e)"
    using cleanup_loop_no_raise [of "bot_procs s" w]
    by (auto simp: cleanup_def split: option.splits sum.splits)
next
  fix p
  assume "exited p w"
  from terminate_exited [OF this] obtain p' w' where
    t: "terminate p w = Inr (p', w')" and r: "returncode p' \<noteq> None" and
    d: "delivered w' = delivered w" and
    c: "children w' = children w \<or> children w' = (children w)(pid p := None)"
    by blast
  with wait_known [OF r]
  show "\<exists>p' w'. terminate p w = Inr (p', w') \<and>
         delivered w' = delivered w \<and>
         (children w' = children w \<or> children w' = (children w)(pid p := None)) \<and>
         wait p' w' = Some (Inr (p', w'))"
    by blast
next
  assume "\<forall>(k, p, u) \<in> set (bot_procs s). exited p w"
  from cleanup_loop_exited [OF this] obtain d' w' where
    l: "cleanup_loop (bot_procs s) w = Some (Inr (d', w'))" and
    d: "delivered w' = delivered w"
    by blast
  from cleanup_loop_result [OF l] have "registry_view d' = registry_view (bot_procs s)"
    by simp
  with l d
  show "\<exists>s' w'. cleanup s w = Some (Inr (s', w')) \<and>
         delivered w' = delivered w \<and>
         registry_view (bot_procs s') = registry_view (bot_procs s)"
    by (simp add: cleanup_def)
qed

theorem cleanup_tolerates_witness:
  "exited \<lparr>pid = 4242, returncode = None\<rparr> example_os_exited \<and>
   terminate \<lparr>pid = 4242, returncode = None\<rparr> example_os_exited =
     Inr (\<lparr>pid = 4242, returncode = Some 0\<rparr>, \<lparr>children = Map.empty, delivered = []\<rparr>) \<and>
   (\<exists>s' w'. cleanup example_registered example_os_exited = Some (Inr (s', w')) \<and>
      delivered w' = [] \<and>
      registry_view (bot_procs s') = [(4242, 4242, ''https://x.example/room1'')])"
proof -
  have e: "exited \<lparr>pid = 4242, returncode = None\<rparr> example_os_exited"
    by (simp add: exited_def example_os_exited_def)
  have a: "\<forall>(k, p, u) \<in> set (bot_procs example_registered). exited p example_os_exited"
    using e by (simp add: example_registered_def)
  have t: "terminate \<lparr>pid = 4242, returncode = None\<rparr> example_os_exited =
     Inr (\<lparr>pid = 4242, returncode = Some 0\<rparr>, \<lparr>children = Map.empty, delivered = []\<rparr>)"
    by (simp add: terminate_def poll_def os_waitpid_def example_os_exited_def)
  have v: "registry_view (bot_procs example_registered) =
      [(4242, 4242, ''https://x.example/room1'')]"
    by (simp add: registry_view_def example_registered_def)
  have d: "delivered example_os_exited = []"
    by (simp add: example_os_exited_def)
  from cleanup_tolerates [of example_registered example_os_exited] a
  have "\<exists>s' w'. cleanup example_registered example_os_exited = Some (Inr (s', w')) \<and>
      delivered w' = delivered example_os_exited \<and>
      registry_view (bot_procs s') = registry_view (bot_procs example_registered)"
    by blast
  with e t v d show ?thesis by simp
qed

text \<open>
  C5, as the specification words it, asks for an empty registry after the first
  \<open>cleanup\<close>. \<open>cleanup\<close> only reads \<open>bot_procs.values()\<close> and never assigns to or deletes
  from the dictionary: with one registered worker that exits on \<open>SIGTERM\<close>, the call
  returns and the registry still holds that worker's record.
\<close>

theorem cleanup_registry_not_emptied:
  "cleanup example_registered example_os =
     Some (Inr (example_registered\<lparr>bot_procs :=
                  [(4242, \<lparr>pid = 4242, returncode = Some (- 15)\<rparr>, ''https://x.example/room1'')]\<rparr>,
                \<lparr>children = Map.empty, delivered = [4242]\<rparr>)) \<and>
   bot_procs (example_registered\<lparr>bot_procs :=
       [(4242, \<lparr>pid = 4242, returncode = Some (- 15)\<rparr>, ''https://x.example/room1'')]\<rparr>) \<noteq> []"
  using example_cleanup by simp

text \<open>
  C5, amended. A call of \<open>cleanup\<close> that returns leaves the registry with the same keys,
  processes and room URLs (nothing is removed), and every registered handle then holds a
  return code: it has recorded the exit of its process.
  A second \<open>cleanup\<close> right after the first is therefore safe although the registry is not
  empty: it returns, raises nothing, sends no signal and changes neither the service state
  nor the process table.
\<close>

theorem cleanup_twice:
  assumes "cleanup s w = Some (Inr (s', w'))"
  shows "s' = s\<lparr>bot_procs := bot_procs s'\<rparr> \<and>
         registry_view (bot_procs s') = registry_view (bot_procs s) \<and>
         length (bot_procs s') = length (bot_procs s) \<and>
         (\<forall>(k, p, u) \<in> set (bot_procs s'). returncode p \<noteq> None) \<and>
         cleanup s' w' = Some (Inr (s', w'))"
proof -
  from assms obtain d where
    l: "cleanup_loop (bot_procs s) w = Some (Inr (d, w'))" and s': "s' = s\<lparr>bot_procs := d\<rparr>"
    by (auto simp: cleanup_def split: option.splits sum.splits)
  from cleanup_loop_result [OF l] have
    v: "registry_view d = registry_view (bot_procs s)" and
    k: "\<forall>(k, p, u) \<in> set d. returncode p \<noteq> None"
    by simp_all
  from v have "length d = length (bot_procs s)"
    unfolding registry_view_def by (rule map_eq_imp_length_eq)
  moreover from cleanup_loop_known [OF k] have "cleanup s' w' = Some (Inr (s', w'))"
    by (simp add: cleanup_def s')
  moreover from k s' have "\<forall>(k, p, u) \<in> set (bot_procs s'). returncode p \<noteq> None"
    by simp
  ultimately show ?thesis using v s' by simp
qed

theorem cleanup_twice_witness:
  "cleanup example_registered example_os =
     Some (Inr (example_registered\<lparr>bot_procs :=
                  [(4242, \<lparr>pid = 4242, returncode = Some (- 15)\<rparr>, ''https://x.example/room1'')]\<rparr>,
                \<lparr>children = Map.empty, delivered = [4242]\<rparr>)) \<and>
   cleanup (example_registered\<lparr>bot_procs :=
              [(4242, \<lparr>pid = 4242, returncode = Some (- 15)\<rparr>, ''https://x.example/room1'')]\<rparr>)
           \<lparr>children = Map.empty, delivered = [4242]\<rparr> =
     Some (Inr (example_registered\<lparr>bot_procs :=
                  [(4242, \<lparr>pid = 4242, returncode = Some (- 15)\<rparr>, ''https://x.example/room1'')]\<rparr>,
                \<lparr>children = Map.empty, delivered = [4242]\<rparr>)) \<and>
   map (\<lambda>(k, p, u). returncode p)
     (bot_procs (example_registered\<lparr>bot_procs :=
        [(4242, \<lparr>pid = 4242, returncode = Some (- 15)\<rparr>, ''https://x.example/room1'')]\<rparr>)) =
     [Some (- 15)]"
  using cleanup_twice [OF example_cleanup] example_cleanup by simp

end
